theory Spec2Isabelle
  imports Complex_Main
begin

section \<open>Numbers of the notebook\<close>

text \<open>
  The notebook computes with numpy/pandas \<^verbatim>\<open>float64\<close> values. A value is a finite number,
  one of the two infinities, or NaN. Finite arithmetic is exact here: rounding and the sign
  of zero are not part of this model (a zero divisor counts as \<open>+0\<close>). Overflow is
  modelled where catalog values of any magnitude meet a product: in the squares of the
  kinematics cell and in the sum of a group's redshifts.
  numpy scalar and array arithmetic never raises: a division by zero yields an infinity
  or NaN, and NaN propagates through every operation and fails every comparison.
\<close>

datatype fl = Fin real | PInf | NInf | NaN

fun fneg :: "fl \<Rightarrow> fl" where
  "fneg (Fin a) = Fin (- a)"
| "fneg PInf = NInf"
| "fneg NInf = PInf"
| "fneg NaN = NaN"

fun fadd :: "fl \<Rightarrow> fl \<Rightarrow> fl" where
  "fadd NaN y = NaN"
| "fadd x NaN = NaN"
| "fadd (Fin a) (Fin b) = Fin (a + b)"
| "fadd PInf NInf = NaN"
| "fadd NInf PInf = NaN"
| "fadd PInf y = PInf"
| "fadd x PInf = PInf"
| "fadd NInf y = NInf"
| "fadd x NInf = NInf"

definition fsub :: "fl \<Rightarrow> fl \<Rightarrow> fl" where
  "fsub x y = fadd x (fneg y)"

fun fmul :: "fl \<Rightarrow> fl \<Rightarrow> fl" where
  "fmul NaN y = NaN"
| "fmul x NaN = NaN"
| "fmul (Fin a) (Fin b) = Fin (a * b)"
| "fmul (Fin a) PInf = (if a = 0 then NaN else if 0 < a then PInf else NInf)"
| "fmul (Fin a) NInf = (if a = 0 then NaN else if 0 < a then NInf else PInf)"
| "fmul PInf (Fin b) = (if b = 0 then NaN else if 0 < b then PInf else NInf)"
| "fmul NInf (Fin b) = (if b = 0 then NaN else if 0 < b then NInf else PInf)"
| "fmul PInf PInf = PInf"
| "fmul PInf NInf = NInf"
| "fmul NInf PInf = NInf"
| "fmul NInf NInf = PInf"

fun fdiv :: "fl \<Rightarrow> fl \<Rightarrow> fl" where
  "fdiv NaN y = NaN"
| "fdiv x NaN = NaN"
| "fdiv (Fin a) (Fin b) =
     (if b = 0 then (if a = 0 then NaN else if 0 < a then PInf else NInf)
      else Fin (a / b))"
| "fdiv (Fin a) PInf = Fin 0"
| "fdiv (Fin a) NInf = Fin 0"
| "fdiv PInf (Fin b) = (if 0 \<le> b then PInf else NInf)"
| "fdiv NInf (Fin b) = (if 0 \<le> b then NInf else PInf)"
| "fdiv PInf PInf = NaN"
| "fdiv PInf NInf = NaN"
| "fdiv NInf PInf = NaN"
| "fdiv NInf NInf = NaN"

text \<open>
  The largest finite \<^verbatim>\<open>float64\<close>, and the result of an operation whose exact value lies
  beyond it: the infinity of its sign.
\<close>

definition max_float :: real where
  "max_float = (2 - 1 / 2 ^ 52) * 2 ^ 1023"

fun overflow :: "fl \<Rightarrow> fl" where
  "overflow (Fin a) = (if max_float < a then PInf else if a < - max_float then NInf else Fin a)"
| "overflow PInf = PInf"
| "overflow NInf = NInf"
| "overflow NaN = NaN"

text \<open>\<^verbatim>\<open>x**2\<close> on an array of floats: a square beyond the float range is infinite.\<close>

definition fsq :: "fl \<Rightarrow> fl" where
  "fsq x = overflow (fmul x x)"

fun fsqrt :: "fl \<Rightarrow> fl" where
  "fsqrt (Fin a) = (if a < 0 then NaN else Fin (sqrt a))"
| "fsqrt PInf = PInf"
| "fsqrt NInf = NaN"
| "fsqrt NaN = NaN"

text \<open>\<^verbatim>\<open>x <= y\<close>; \<^verbatim>\<open>x >= y\<close> is \<open>fle y x\<close>. Every comparison with NaN is false.\<close>

fun fle :: "fl \<Rightarrow> fl \<Rightarrow> bool" where
  "fle NaN y = False"
| "fle x NaN = False"
| "fle (Fin a) (Fin b) = (a \<le> b)"
| "fle NInf y = True"
| "fle x PInf = True"
| "fle PInf y = False"
| "fle x NInf = False"

definition fge :: "fl \<Rightarrow> fl \<Rightarrow> bool" where
  "fge x y = fle y x"

section \<open>The catalog and its aggregation\<close>

text \<open>
  A row of the catalog read by \<^verbatim>\<open>pd.read_csv\<close>, restricted to the five columns the
  notebook uses. A blank cell is \<open>None\<close>: pandas reads it as NaN, and its group
  reductions skip it.
\<close>

record obs =
  obs_objid :: "int option"
  obs_specz :: "real option"
  obs_ra :: "real option"
  obs_dec :: "real option"
  obs_proj_sep :: "real option"

text \<open>A row of \<^verbatim>\<open>df.groupby('objid').agg({...}).reset_index()\<close>.\<close>

record agg =
  agg_objid :: int
  agg_specz :: fl
  agg_ra :: fl
  agg_dec :: fl
  agg_proj_sep :: fl

text \<open>
  \<^verbatim>\<open>df.groupby('objid')\<close>: the group keys, in ascending order (pandas sorts them). Rows
  with a blank identifier belong to no group (\<^verbatim>\<open>dropna=True\<close>).
\<close>

definition group_keys :: "obs list \<Rightarrow> int list" where
  "group_keys df = sort (remdups (List.map_filter obs_objid df))"

text \<open>The rows of one group, in the order of the catalog.\<close>

definition group_rows :: "obs list \<Rightarrow> int \<Rightarrow> obs list" where
  "group_rows df k = filter (\<lambda>r. obs_objid r = Some k) df"

text \<open>The cells of a column that are not blank, in order.\<close>

definition present :: "real option list \<Rightarrow> real list" where
  "present cells = List.map_filter (\<lambda>c. c) cells"

text \<open>\<^verbatim>\<open>'first'\<close>: the first cell of the group that is not blank; NaN when all are.\<close>

definition agg_first :: "real option list \<Rightarrow> fl" where
  "agg_first cells = (case present cells of [] \<Rightarrow> NaN | x # xs \<Rightarrow> Fin x)"

text \<open>
  \<^verbatim>\<open>'mean'\<close>: the sum of the cells that are not blank over their number; NaN when all
  are blank.
\<close>

definition agg_mean :: "real option list \<Rightarrow> fl" where
  "agg_mean cells =
     (case present cells of
        [] \<Rightarrow> NaN
      | x # xs \<Rightarrow> fdiv (overflow (Fin (sum_list (x # xs)))) (Fin (real (length (x # xs)))))"

text \<open>
  \<^verbatim>\<open>.agg({'specz': 'mean', 'ra': 'first', 'dec': 'first', 'proj_sep': 'first'})\<close>
  on one group. A key with no row has no group and gives no output row.
\<close>

fun agg_group :: "int \<Rightarrow> obs list \<Rightarrow> agg list" where
  "agg_group k [] = []"
| "agg_group k (r # rs) =
     [\<lparr>agg_objid = k,
       agg_specz = agg_mean (map obs_specz (r # rs)),
       agg_ra = agg_first (map obs_ra (r # rs)),
       agg_dec = agg_first (map obs_dec (r # rs)),
       agg_proj_sep = agg_first (map obs_proj_sep (r # rs))\<rparr>]"

text \<open>\<^verbatim>\<open>averaged_df = df.groupby('objid').agg({...}).reset_index()\<close>\<close>

definition averaged_df :: "obs list \<Rightarrow> agg list" where
  "averaged_df df = concat (map (\<lambda>k. agg_group k (group_rows df k)) (group_keys df))"

text \<open>
  The later cells are modelled on aggregated tables in which every cell is a finite
  number: a row of such a table is a \<open>row\<close>.
\<close>

record row =
  objid :: int
  specz :: real
  ra :: real
  dec :: real
  proj_sep :: real

section \<open>The outlier filter\<close>

text \<open>\<^verbatim>\<open>Series.mean()\<close>: NaN on an empty column.\<close>

definition pd_mean :: "real list \<Rightarrow> fl" where
  "pd_mean xs = (if xs = [] then NaN else Fin (sum_list xs / real (length xs)))"

text \<open>
  \<^verbatim>\<open>Series.std()\<close>: pandas' default is \<^verbatim>\<open>ddof=1\<close>, the divisor is \<open>n - 1\<close>, and the
  result is NaN when the column has at most one value.
\<close>

definition pd_std :: "real list \<Rightarrow> fl" where
  "pd_std xs =
     (if length xs \<le> 1 then NaN
      else Fin (sqrt (sum_list (map (\<lambda>x. (x - sum_list xs / real (length xs))\<^sup>2) xs)
                       / real (length xs - 1))))"

definition mean_redshift :: "row list \<Rightarrow> fl" where
  "mean_redshift t = pd_mean (map specz t)"

definition std_redshift :: "row list \<Rightarrow> fl" where
  "std_redshift t = pd_std (map specz t)"

definition lower_limit :: "row list \<Rightarrow> fl" where
  "lower_limit t = fsub (mean_redshift t) (fmul (Fin 3) (std_redshift t))"

definition upper_limit :: "row list \<Rightarrow> fl" where
  "upper_limit t = fadd (mean_redshift t) (fmul (Fin 3) (std_redshift t))"

text \<open>
  \<^verbatim>\<open>filtered_df = averaged_df[(averaged_df['specz'] >= lower_limit) &
                             (averaged_df['specz'] <= upper_limit)].copy()\<close>
\<close>

definition filtered_df :: "row list \<Rightarrow> row list" where
  "filtered_df t =
     filter (\<lambda>r. fge (Fin (specz r)) (lower_limit t) \<and> fle (Fin (specz r)) (upper_limit t)) t"

text \<open>
  The cell then prints the share of removed rows,
  \<^verbatim>\<open>100*(len(averaged_df) - len(filtered_df))/len(averaged_df)\<close>, a division of Python
  integers, which raises on a zero divisor.
\<close>

datatype error = ZeroDivisionError

definition removed_percent :: "nat \<Rightarrow> nat \<Rightarrow> error + real" where
  "removed_percent n m =
     (if n = 0 then Inl ZeroDivisionError
      else Inr (real_of_int (100 * (int n - int m)) / real n))"

definition filter_cell :: "row list \<Rightarrow> error + row list" where
  "filter_cell t =
     (case removed_percent (length t) (length (filtered_df t)) of
        Inl e \<Rightarrow> Inl e
      | Inr p \<Rightarrow> Inr (filtered_df t))"

section \<open>Kinematics\<close>

text \<open>
  The speed of light \<open>c_light\<close> (km/s) and the Hubble constant \<open>H_0\<close> (km/s/Mpc) come from
  astropy; they are parameters of the functions that use them.

  The filtered table is a data frame: its rows (the five columns of the aggregated
  table) and the columns assigned to it afterwards, by name, in the order of their first
  assignment. \<^verbatim>\<open>df[name] = values\<close> replaces the column of that name or appends a new one.
\<close>

record frame =
  rows :: "row list"
  derived :: "(string \<times> fl list) list"

definition new_frame :: "row list \<Rightarrow> frame" where
  "new_frame t = \<lparr>rows = t, derived = []\<rparr>"

fun assign :: "string \<Rightarrow> fl list \<Rightarrow> (string \<times> fl list) list \<Rightarrow> (string \<times> fl list) list" where
  "assign name vals [] = [(name, vals)]"
| "assign name vals ((n, vs) # cols) =
     (if n = name then (n, vals) # cols else (n, vs) # assign name vals cols)"

text \<open>\<^verbatim>\<open>filtered_df['velocity'] = c_light * filtered_df['specz']\<close>\<close>

definition velocity_cell :: "real \<Rightarrow> frame \<Rightarrow> frame" where
  "velocity_cell c_light f =
     f\<lparr>derived := assign ''velocity'' (map (\<lambda>r. fmul (Fin c_light) (Fin (specz r))) (rows f))
                   (derived f)\<rparr>"

text \<open>\<^verbatim>\<open>cluster_redshift = filtered_df['specz'].mean()\<close>\<close>

definition cluster_redshift :: "row list \<Rightarrow> fl" where
  "cluster_redshift t = pd_mean (map specz t)"

text \<open>
  One entry of
  \<^verbatim>\<open>c_light * ((1 + z)**2 - (1 + z_cluster)**2) / ((1 + z)**2 + (1 + z_cluster)**2)\<close>
\<close>

definition v_offset :: "real \<Rightarrow> real \<Rightarrow> fl \<Rightarrow> fl" where
  "v_offset c_light z z_cluster =
     fdiv (fmul (Fin c_light)
             (fsub (fsq (fadd (Fin 1) (Fin z))) (fsq (fadd (Fin 1) z_cluster))))
          (fadd (fsq (fadd (Fin 1) (Fin z))) (fsq (fadd (Fin 1) z_cluster)))"

definition v_dispersion :: "real \<Rightarrow> row list \<Rightarrow> fl list" where
  "v_dispersion c_light t = map (\<lambda>r. v_offset c_light (specz r) (cluster_redshift t)) t"

text \<open>
  \<^verbatim>\<open>np.std\<close>: the square root of the mean of the squared deviations from the mean, with
  numpy's default \<^verbatim>\<open>ddof=0\<close>. The mean of an empty array is \<open>0/0\<close>, NaN.
\<close>

definition np_sum :: "fl list \<Rightarrow> fl" where
  "np_sum xs = foldr fadd xs (Fin 0)"

definition np_mean :: "fl list \<Rightarrow> fl" where
  "np_mean xs = fdiv (np_sum xs) (Fin (real (length xs)))"

definition np_std :: "fl list \<Rightarrow> fl" where
  "np_std xs = fsqrt (np_mean (map (\<lambda>x. fsq (fsub x (np_mean xs))) xs))"

definition disp :: "real \<Rightarrow> row list \<Rightarrow> fl" where
  "disp c_light t = np_std (v_dispersion c_light t)"

text \<open>\<^verbatim>\<open>filtered_df['v_dispersion'] = v_dispersion\<close>\<close>

definition dispersion_cell :: "real \<Rightarrow> frame \<Rightarrow> frame" where
  "dispersion_cell c_light f =
     f\<lparr>derived := assign ''v_dispersion'' (v_dispersion c_light (rows f)) (derived f)\<rparr>"

definition kinematics :: "real \<Rightarrow> row list \<Rightarrow> frame" where
  "kinematics c_light t = dispersion_cell c_light (velocity_cell c_light (new_frame t))"

section \<open>Geometry\<close>

definition q0 :: real where
  "q0 = - 0.534"

text \<open>
  \<^verbatim>\<open>r_comoving = (c_light * z_cluster / H_0) * (1 - (z_cluster/2) * (1 + q0))\<close>
\<close>

definition r_comoving :: "real \<Rightarrow> real \<Rightarrow> fl \<Rightarrow> fl" where
  "r_comoving c_light H_0 z_cluster =
     fmul (fdiv (fmul (Fin c_light) z_cluster) (Fin H_0))
          (fsub (Fin 1) (fmul (fdiv z_cluster (Fin 2)) (Fin (1 + q0))))"

text \<open>\<^verbatim>\<open>D_A = r_comoving / (1 + z_cluster)\<close>\<close>

definition D_A :: "real \<Rightarrow> real \<Rightarrow> fl \<Rightarrow> fl" where
  "D_A c_light H_0 z_cluster = fdiv (r_comoving c_light H_0 z_cluster) (fadd (Fin 1) z_cluster)"

text \<open>\<^verbatim>\<open>Series.max()\<close>: NaN on an empty column.\<close>

fun pd_max :: "real list \<Rightarrow> fl" where
  "pd_max [] = NaN"
| "pd_max (x # xs) = Fin (fold max xs x)"

definition max_sep_arcmin :: "row list \<Rightarrow> fl" where
  "max_sep_arcmin t = pd_max (map proj_sep t)"

text \<open>\<^verbatim>\<open>max_sep_radians = max_sep_arcmin * (np.pi / 180) / 60\<close>\<close>

definition max_sep_radians :: "row list \<Rightarrow> fl" where
  "max_sep_radians t = fdiv (fmul (max_sep_arcmin t) (Fin (pi / 180))) (Fin 60)"

text \<open>\<^verbatim>\<open>diameter = 2 * D_A * max_sep_radians\<close>\<close>

definition diameter :: "real \<Rightarrow> real \<Rightarrow> row list \<Rightarrow> fl" where
  "diameter c_light H_0 t =
     fmul (fmul (Fin 2) (D_A c_light H_0 (cluster_redshift t))) (max_sep_radians t)"

section \<open>Dynamical mass\<close>

definition sigma_ms :: "fl \<Rightarrow> fl" where
  "sigma_ms dsp = fmul dsp (Fin 1000)"

definition R_meters :: "fl \<Rightarrow> fl" where
  "R_meters diam = fmul (fmul diam (Fin 0.5)) (Fin (3.086 * 10 ^ 22))"

definition G_SI :: real where
  "G_SI = 6.674 / 10 ^ 11"

definition M_sun :: real where
  "M_sun = 1.989 * 10 ^ 30"

text \<open>
  \<^verbatim>\<open>M_dyn = (3 * sigma_ms**2 * R_meters) / G_SI\<close>. The dispersion that reaches this cell is
  bounded by the speed of light, and its square is the exact product.
\<close>

definition M_dyn :: "fl \<Rightarrow> fl \<Rightarrow> fl" where
  "M_dyn dsp diam =
     fdiv (fmul (fmul (Fin 3) (fmul (sigma_ms dsp) (sigma_ms dsp))) (R_meters diam)) (Fin G_SI)"

text \<open>\<^verbatim>\<open>M_dyn_solar = M_dyn / M_sun\<close>\<close>

definition M_dyn_solar :: "fl \<Rightarrow> fl \<Rightarrow> fl" where
  "M_dyn_solar dsp diam = fdiv (M_dyn dsp diam) (Fin M_sun)"

section \<open>The formulas of the specification\<close>

text \<open>
  The specification's statistics and its velocity formula over the real numbers, to
  compare the notebook's computations with.
\<close>

definition spec_mean :: "real list \<Rightarrow> real" where
  "spec_mean xs = sum_list xs / real (length xs)"

definition spec_population_std :: "real list \<Rightarrow> real" where
  "spec_population_std xs =
     sqrt (sum_list (map (\<lambda>x. (x - spec_mean xs)\<^sup>2) xs) / real (length xs))"

definition spec_sample_std :: "real list \<Rightarrow> real" where
  "spec_sample_std xs =
     sqrt (sum_list (map (\<lambda>x. (x - spec_mean xs)\<^sup>2) xs) / (real (length xs) - 1))"

definition spec_velocity_offset :: "real \<Rightarrow> real \<Rightarrow> real \<Rightarrow> real" where
  "spec_velocity_offset c z z_cluster =
     c * ((1 + z)\<^sup>2 - (1 + z_cluster)\<^sup>2) / ((1 + z)\<^sup>2 + (1 + z_cluster)\<^sup>2)"

section \<open>Sample tables\<close>

definition obj :: "int \<Rightarrow> real \<Rightarrow> row" where
  "obj i z = \<lparr>objid = i, specz = z, ra = 0, dec = 0, proj_sep = 0\<rparr>"

definition seen :: "int \<Rightarrow> real \<Rightarrow> real \<Rightarrow> real \<Rightarrow> real \<Rightarrow> obs" where
  "seen i z a d p =
     \<lparr>obs_objid = Some i, obs_specz = Some z, obs_ra = Some a, obs_dec = Some d,
      obs_proj_sep = Some p\<rparr>"

definition catalog3 :: "obs list" where
  "catalog3 = [seen 7 1 10 20 3, seen 5 4 11 21 4, seen 7 3 12 22 5]"

text \<open>Two observations of object 7: the first has no right ascension, the second no redshift.\<close>

definition catalog_blank :: "obs list" where
  "catalog_blank =
     [\<lparr>obs_objid = Some 7, obs_specz = Some 1, obs_ra = None, obs_dec = Some 20,
       obs_proj_sep = Some 3\<rparr>,
      \<lparr>obs_objid = Some 7, obs_specz = None, obs_ra = Some 12, obs_dec = Some 22,
       obs_proj_sep = Some 5\<rparr>]"


definition table3 :: "row list" where
  "table3 = [obj 1 1, obj 2 2, obj 3 3]"

text \<open>Three objects at redshift 1, at 30, 60 and 45 arcminutes from the centre.\<close>

definition sky3 :: "row list" where
  "sky3 =
     [\<lparr>objid = 1, specz = 1, ra = 0, dec = 0, proj_sep = 30\<rparr>,
      \<lparr>objid = 2, specz = 1, ra = 0, dec = 0, proj_sep = 60\<rparr>,
      \<lparr>objid = 3, specz = 1, ra = 0, dec = 0, proj_sep = 45\<rparr>]"

section \<open>Aggregation\<close>

lemma overflow_Fin: "\<bar>a\<bar> \<le> max_float \<Longrightarrow> overflow (Fin a) = Fin a"
  by auto

lemma agg_group_objid:
  "a \<in> set (agg_group k g) \<Longrightarrow> agg_objid a = k"
  by (cases g) auto

lemma present_filter: "present cells = map the (filter (\<lambda>c. c \<noteq> None) cells)"
  by (induction cells) (auto simp: present_def List.map_filter_simps)

lemma agg_first_find:
  "agg_first cells =
     (case find (\<lambda>c. c \<noteq> None) cells of Some (Some x) \<Rightarrow> Fin x | _ \<Rightarrow> NaN)"
  by (induction cells) (auto simp: agg_first_def present_def List.map_filter_simps split: list.splits)

lemma abs_sum_list_le: "\<bar>sum_list xs\<bar> \<le> sum_list (map abs xs)" for xs :: "real list"
  by (induction xs) auto

lemma agg_mean_blank: "filter (\<lambda>c. c \<noteq> None) cells = [] \<Longrightarrow> agg_mean cells = NaN"
  by (simp add: agg_mean_def present_filter)

lemma agg_mean_present:
  assumes "zs = map the (filter (\<lambda>c. c \<noteq> None) cells)" and "zs \<noteq> []"
    and "sum_list (map abs zs) \<le> max_float"
  shows "agg_mean cells = Fin (sum_list zs / real (length zs))"
proof -
  from assms(1) have p: "present cells = zs" by (simp add: present_filter)
  from assms(2) obtain x xs where zs: "zs = x # xs" by (cases zs) auto
  from assms(3) abs_sum_list_le [of zs] have "\<bar>sum_list zs\<bar> \<le> max_float" by linarith
  then have "overflow (Fin (sum_list zs)) = Fin (sum_list zs)" by (rule overflow_Fin)
  then show ?thesis by (simp add: agg_mean_def p zs)
qed

lemma map_objid_concat_groups:
  "(\<And>k. k \<in> set ks \<Longrightarrow> g k \<noteq> []) \<Longrightarrow>
   map agg_objid (concat (map (\<lambda>k. agg_group k (g k)) ks)) = ks"
proof (induction ks)
  case Nil
  then show ?case by simp
next
  case (Cons k ks)
  from Cons.prems have "g k \<noteq> []" by simp
  then obtain r rs where "g k = r # rs" by (cases "g k") auto
  with Cons show ?case by simp
qed

lemma set_map_filter_objid:
  "set (List.map_filter obs_objid df) = {k. Some k \<in> obs_objid ` set df}"
  by (induction df) (auto simp: List.map_filter_simps split: option.splits)

lemma set_group_keys: "set (group_keys df) = {k. Some k \<in> obs_objid ` set df}"
  by (simp add: group_keys_def set_map_filter_objid)

lemma group_rows_nonempty:
  "k \<in> set (group_keys df) \<Longrightarrow> group_rows df k \<noteq> []"
  by (auto simp: set_group_keys group_rows_def filter_empty_conv)

lemma objid_averaged_df: "map agg_objid (averaged_df df) = group_keys df"
  unfolding averaged_df_def
  by (rule map_objid_concat_groups) (rule group_rows_nonempty)

lemma averaged_df_row:
  assumes "a \<in> set (averaged_df df)"
  shows "agg_specz a = agg_mean (map obs_specz (filter (\<lambda>x. obs_objid x = Some (agg_objid a)) df)) \<and>
    agg_ra a = agg_first (map obs_ra (filter (\<lambda>x. obs_objid x = Some (agg_objid a)) df)) \<and>
    agg_dec a = agg_first (map obs_dec (filter (\<lambda>x. obs_objid x = Some (agg_objid a)) df)) \<and>
    agg_proj_sep a =
      agg_first (map obs_proj_sep (filter (\<lambda>x. obs_objid x = Some (agg_objid a)) df))"
proof -
  from assms obtain k where a: "a \<in> set (agg_group k (group_rows df k))"
    by (auto simp: averaged_df_def)
  then have k: "agg_objid a = k" by (rule agg_group_objid)
  from a obtain r rs where g: "group_rows df k = r # rs"
    by (cases "group_rows df k") auto
  from a have "a = \<lparr>agg_objid = k,
       agg_specz = agg_mean (map obs_specz (group_rows df k)),
       agg_ra = agg_first (map obs_ra (group_rows df k)),
       agg_dec = agg_first (map obs_dec (group_rows df k)),
       agg_proj_sep = agg_first (map obs_proj_sep (group_rows df k))\<rparr>"
    unfolding g by simp
  then show ?thesis unfolding k group_rows_def by simp
qed

text \<open>
  Claim C1, as the code has it. For every catalog, the aggregated table has exactly one
  row per object identifier that occurs in the catalog (a row with a blank identifier
  belongs to no group). The redshift of a row is the arithmetic mean of the redshifts
  that are not blank among the catalog rows with its identifier, as long as the sum of
  their magnitudes is within the float range, and NaN when all are blank. Its right
  ascension, declination and projected separation are each the first value that is not
  blank among these rows, and NaN when all are blank.
\<close>

theorem aggregation_skips_blank_cells:
  "distinct (map agg_objid (averaged_df df)) \<and>
   set (map agg_objid (averaged_df df)) = {k. Some k \<in> obs_objid ` set df} \<and>
   (\<forall>a \<in> set (averaged_df df).
      (filter (\<lambda>c. c \<noteq> None)
         (map obs_specz (filter (\<lambda>x. obs_objid x = Some (agg_objid a)) df)) = []
       \<longrightarrow> agg_specz a = NaN) \<and>
      (filter (\<lambda>c. c \<noteq> None)
         (map obs_specz (filter (\<lambda>x. obs_objid x = Some (agg_objid a)) df)) \<noteq> [] \<and>
       sum_list (map abs (map the (filter (\<lambda>c. c \<noteq> None)
         (map obs_specz (filter (\<lambda>x. obs_objid x = Some (agg_objid a)) df))))) \<le> max_float
       \<longrightarrow> agg_specz a =
           Fin (sum_list (map the (filter (\<lambda>c. c \<noteq> None)
                  (map obs_specz (filter (\<lambda>x. obs_objid x = Some (agg_objid a)) df))))
                / real (length (filter (\<lambda>c. c \<noteq> None)
                  (map obs_specz (filter (\<lambda>x. obs_objid x = Some (agg_objid a)) df)))))) \<and>
      agg_ra a =
        (case find (\<lambda>c. c \<noteq> None)
                (map obs_ra (filter (\<lambda>x. obs_objid x = Some (agg_objid a)) df))
         of Some (Some x) \<Rightarrow> Fin x | _ \<Rightarrow> NaN) \<and>
      agg_dec a =
        (case find (\<lambda>c. c \<noteq> None)
                (map obs_dec (filter (\<lambda>x. obs_objid x = Some (agg_objid a)) df))
         of Some (Some x) \<Rightarrow> Fin x | _ \<Rightarrow> NaN) \<and>
      agg_proj_sep a =
        (case find (\<lambda>c. c \<noteq> None)
                (map obs_proj_sep (filter (\<lambda>x. obs_objid x = Some (agg_objid a)) df))
         of Some (Some x) \<Rightarrow> Fin x | _ \<Rightarrow> NaN))"
proof (intro conjI ballI impI)
  show "distinct (map agg_objid (averaged_df df))"
    by (simp add: objid_averaged_df group_keys_def)
  show "set (map agg_objid (averaged_df df)) = {k. Some k \<in> obs_objid ` set df}"
    by (simp only: objid_averaged_df set_group_keys)
next
  fix a assume a: "a \<in> set (averaged_df df)"
  let ?g = "filter (\<lambda>x. obs_objid x = Some (agg_objid a)) df"
  note r = averaged_df_row [OF a]
  show "agg_ra a = (case find (\<lambda>c. c \<noteq> None) (map obs_ra ?g)
         of Some (Some x) \<Rightarrow> Fin x | _ \<Rightarrow> NaN)"
    using r by (simp only: agg_first_find)
  show "agg_dec a = (case find (\<lambda>c. c \<noteq> None) (map obs_dec ?g)
         of Some (Some x) \<Rightarrow> Fin x | _ \<Rightarrow> NaN)"
    using r by (simp only: agg_first_find)
  show "agg_proj_sep a = (case find (\<lambda>c. c \<noteq> None) (map obs_proj_sep ?g)
         of Some (Some x) \<Rightarrow> Fin x | _ \<Rightarrow> NaN)"
    using r by (simp only: agg_first_find)
  {
    assume "filter (\<lambda>c. c \<noteq> None) (map obs_specz ?g) = []"
    then show "agg_specz a = NaN" using r by (simp only: agg_mean_blank)
  }
  {
    assume h: "filter (\<lambda>c. c \<noteq> None) (map obs_specz ?g) \<noteq> [] \<and>
      sum_list (map abs (map the (filter (\<lambda>c. c \<noteq> None) (map obs_specz ?g)))) \<le> max_float"
    let ?zs = "map the (filter (\<lambda>c. c \<noteq> None) (map obs_specz ?g))"
    from h have ne: "?zs \<noteq> []" by simp
    from h have b: "sum_list (map abs ?zs) \<le> max_float" by simp
    have "agg_mean (map obs_specz ?g) = Fin (sum_list ?zs / real (length ?zs))"
      using refl ne b by (rule agg_mean_present)
    with r show "agg_specz a =
           Fin (sum_list ?zs / real (length (filter (\<lambda>c. c \<noteq> None) (map obs_specz ?g))))"
      by simp
  }
qed

lemma averaged_catalog3:
  "averaged_df catalog3 =
     [\<lparr>agg_objid = 5, agg_specz = Fin 4, agg_ra = Fin 11, agg_dec = Fin 21, agg_proj_sep = Fin 4\<rparr>,
      \<lparr>agg_objid = 7, agg_specz = Fin 2, agg_ra = Fin 10, agg_dec = Fin 20, agg_proj_sep = Fin 3\<rparr>]"
  by (simp add: catalog3_def seen_def averaged_df_def group_keys_def group_rows_def
      List.map_filter_simps agg_mean_def agg_first_def present_def max_float_def)

text \<open>
  The catalog has two observations of object 7 (redshifts 1 and 3) around one of object 5:
  the row of object 7 has redshift 2 and the position of its first observation.
\<close>

theorem aggregation_skips_blank_cells_witness:
  "\<lparr>agg_objid = 7, agg_specz = Fin 2, agg_ra = Fin 10, agg_dec = Fin 20, agg_proj_sep = Fin 3\<rparr>
     \<in> set (averaged_df catalog3) \<and>
   map agg_objid (averaged_df catalog3) = [5, 7] \<and>
   distinct (map agg_objid (averaged_df catalog3)) \<and>
   map obs_specz (filter (\<lambda>x. obs_objid x = Some 7) catalog3) = [Some 1, Some 3] \<and>
   sum_list (map abs [1, 3 :: real]) \<le> max_float \<and>
   Fin (sum_list [1, 3] / real (length [Some (1::real), Some 3])) = Fin 2 \<and>
   find (\<lambda>c. c \<noteq> None) (map obs_ra (filter (\<lambda>x. obs_objid x = Some 7) catalog3)) = Some (Some 10)"
proof -
  have mem: "\<lparr>agg_objid = 7, agg_specz = Fin 2, agg_ra = Fin 10, agg_dec = Fin 20,
      agg_proj_sep = Fin 3\<rparr> \<in> set (averaged_df catalog3)"
    by (simp add: averaged_catalog3)
  have g: "map obs_specz (filter (\<lambda>x. obs_objid x = Some 7) catalog3) = [Some 1, Some 3]"
    by (simp add: catalog3_def seen_def)
  have b: "sum_list (map abs [1, 3 :: real]) \<le> max_float" by (simp add: max_float_def)
  have f: "find (\<lambda>c. c \<noteq> None) (map obs_ra (filter (\<lambda>x. obs_objid x = Some 7) catalog3))
      = Some (Some 10)"
    by (simp add: catalog3_def seen_def)
  from aggregation_skips_blank_cells [of catalog3]
  have "distinct (map agg_objid (averaged_df catalog3))" by blast
  with mem g b f show ?thesis by (simp add: averaged_catalog3)
qed

text \<open>
  Claim C1 as stated fails on a catalog with blank cells. The first-seen right ascension
  of object 7 is blank and the aggregated one is 12, that of the second observation; the
  second redshift is blank and the aggregated redshift is 1, the mean of the one that is
  present.
\<close>

theorem first_seen_counterexample:
  "map obs_ra (filter (\<lambda>x. obs_objid x = Some 7) catalog_blank) = [None, Some 12] \<and>
   map obs_specz (filter (\<lambda>x. obs_objid x = Some 7) catalog_blank) = [Some 1, None] \<and>
   averaged_df catalog_blank =
     [\<lparr>agg_objid = 7, agg_specz = Fin 1, agg_ra = Fin 12, agg_dec = Fin 20, agg_proj_sep = Fin 3\<rparr>]"
  by (simp add: catalog_blank_def averaged_df_def group_keys_def group_rows_def
      List.map_filter_simps agg_mean_def agg_first_def present_def max_float_def)

section \<open>The three-sigma filter\<close>

lemma pd_mean_spec: "xs \<noteq> [] \<Longrightarrow> pd_mean xs = Fin (spec_mean xs)"
  by (simp add: pd_mean_def spec_mean_def)

lemma pd_std_spec: "2 \<le> length xs \<Longrightarrow> pd_std xs = Fin (spec_sample_std xs)"
  by (simp add: pd_std_def spec_sample_std_def spec_mean_def)

lemma limits_spec:
  assumes "2 \<le> length t"
  shows "lower_limit t = Fin (spec_mean (map specz t) - 3 * spec_sample_std (map specz t))"
    and "upper_limit t = Fin (spec_mean (map specz t) + 3 * spec_sample_std (map specz t))"
proof -
  from assms have ne: "map specz t \<noteq> []" and two: "2 \<le> length (map specz t)" by auto
  show "lower_limit t = Fin (spec_mean (map specz t) - 3 * spec_sample_std (map specz t))"
    by (simp add: lower_limit_def mean_redshift_def std_redshift_def pd_mean_spec [OF ne]
        pd_std_spec [OF two] fsub_def)
  show "upper_limit t = Fin (spec_mean (map specz t) + 3 * spec_sample_std (map specz t))"
    by (simp add: upper_limit_def mean_redshift_def std_redshift_def pd_mean_spec [OF ne]
        pd_std_spec [OF two])
qed

lemma filtered_df_spec:
  assumes "2 \<le> length t"
  shows "filtered_df t =
    filter (\<lambda>r. spec_mean (map specz t) - 3 * spec_sample_std (map specz t) \<le> specz r \<and>
                specz r \<le> spec_mean (map specz t) + 3 * spec_sample_std (map specz t)) t"
  by (simp add: filtered_df_def limits_spec [OF assms] fge_def)








text \<open>
  Claim C10. On an aggregated table of exactly one object the deviation is NaN (the
  divisor \<open>n - 1\<close> is 0), so both limits are NaN, both comparisons of the object's
  redshift with them are false, and the cell raises no error and returns an empty table.
\<close>

theorem single_object_filtered_out:
  "std_redshift [r] = NaN \<and>
   lower_limit [r] = NaN \<and> upper_limit [r] = NaN \<and>
   \<not> fge (Fin (specz r)) (lower_limit [r]) \<and>
   \<not> fle (Fin (specz r)) (upper_limit [r]) \<and>
   filter_cell [r] = Inr []"
  by (simp add: std_redshift_def mean_redshift_def pd_std_def pd_mean_def lower_limit_def
      upper_limit_def fsub_def fge_def filter_cell_def filtered_df_def removed_percent_def)







section \<open>Velocity offsets and dispersion\<close>

lemma in_range_150: "(10::real) ^ 300 \<le> max_float"
  by (simp add: max_float_def)

lemma fsq_Fin:
  assumes "\<bar>a\<bar> \<le> 10 ^ 150"
  shows "fsq (Fin a) = Fin (a\<^sup>2)"
proof -
  have "a\<^sup>2 \<le> B\<^sup>2" if "\<bar>a\<bar> \<le> B" for B :: real
    using power_mono [OF that, of 2] by simp
  from this [OF assms] have "a\<^sup>2 \<le> 10 ^ 300" by simp
  then have "a\<^sup>2 \<le> max_float" using in_range_150 by linarith
  moreover have "0 \<le> a\<^sup>2" by simp
  ultimately have "\<bar>a * a\<bar> \<le> max_float" by (simp add: power2_eq_square)
  then have "overflow (Fin (a * a)) = Fin (a * a)" by (rule overflow_Fin)
  then show ?thesis by (simp add: fsq_def power2_eq_square)
qed

lemma v_offset_spec:
  assumes "(1 + z)\<^sup>2 + (1 + z_cluster)\<^sup>2 \<noteq> 0"
    and "\<bar>1 + z\<bar> \<le> 10 ^ 150" and "\<bar>1 + z_cluster\<bar> \<le> 10 ^ 150"
  shows "v_offset c z (Fin z_cluster) = Fin (spec_velocity_offset c z z_cluster)"
  using assms(1)
  by (simp add: v_offset_def spec_velocity_offset_def fsq_Fin [OF assms(2)]
      fsq_Fin [OF assms(3)] fsub_def)

lemma v_offset_same:
  assumes "z \<noteq> - 1" and "\<bar>1 + z\<bar> \<le> 10 ^ 150"
  shows "v_offset c z (Fin z) = Fin 0"
proof -
  from assms(1) have "1 + z \<noteq> 0" by simp
  then have "(1 + z)\<^sup>2 + (1 + z)\<^sup>2 \<noteq> 0" by simp
  then show ?thesis
    by (simp add: v_offset_spec [OF _ assms(2) assms(2)] spec_velocity_offset_def)
qed

lemma abs_sum_list_bound:
  "\<forall>x \<in> set xs. \<bar>x\<bar> \<le> B \<Longrightarrow> \<bar>sum_list xs\<bar> \<le> real (length xs) * B" for xs :: "real list"
  by (induction xs) (auto simp: algebra_simps)

lemma spec_mean_bound:
  assumes "xs \<noteq> []" and "\<forall>x \<in> set xs. \<bar>x\<bar> \<le> B"
  shows "\<bar>spec_mean xs\<bar> \<le> B"
proof -
  from assms(1) have n: "0 < real (length xs)" by simp
  from abs_sum_list_bound [OF assms(2)] have "\<bar>sum_list xs\<bar> \<le> real (length xs) * B" .
  then have "\<bar>sum_list xs\<bar> / real (length xs) \<le> B"
    using n by (simp add: pos_divide_le_eq mult.commute)
  then show ?thesis by (simp add: spec_mean_def)
qed

lemma spec_velocity_offset_bound:
  assumes "(1 + z)\<^sup>2 + (1 + zc)\<^sup>2 \<noteq> 0"
  shows "\<bar>spec_velocity_offset c z zc\<bar> \<le> \<bar>c\<bar>"
proof -
  let ?A = "(1 + z)\<^sup>2" and ?B = "(1 + zc)\<^sup>2"
  have nn: "0 \<le> ?A" "0 \<le> ?B" by simp_all
  with assms have pos: "0 < ?A + ?B" by linarith
  from nn have "\<bar>?A - ?B\<bar> \<le> ?A + ?B" by linarith
  then have "\<bar>c\<bar> * \<bar>?A - ?B\<bar> \<le> \<bar>c\<bar> * (?A + ?B)" by (intro mult_left_mono) simp_all
  then have "\<bar>c * (?A - ?B)\<bar> / (?A + ?B) \<le> \<bar>c\<bar>"
    using pos by (simp add: pos_divide_le_eq abs_mult)
  moreover have "\<bar>spec_velocity_offset c z zc\<bar> = \<bar>c * (?A - ?B)\<bar> / (?A + ?B)"
    using pos by (simp add: spec_velocity_offset_def)
  ultimately show ?thesis by simp
qed

lemma np_sum_Fin: "np_sum (map Fin xs) = Fin (sum_list xs)"
  by (induction xs) (simp_all add: np_sum_def)

lemma np_mean_Fin: "xs \<noteq> [] \<Longrightarrow> np_mean (map Fin xs) = Fin (spec_mean xs)"
  by (simp add: np_mean_def np_sum_Fin spec_mean_def)

lemma np_std_Fin:
  assumes "xs \<noteq> []" and "\<forall>x \<in> set xs. \<bar>x - spec_mean xs\<bar> \<le> 10 ^ 150"
  shows "np_std (map Fin xs) = Fin (spec_population_std xs)"
proof -
  let ?sq = "map (\<lambda>x. (x - spec_mean xs)\<^sup>2) xs"
  have "fsq (fsub (Fin x) (np_mean (map Fin xs))) = Fin ((x - spec_mean xs)\<^sup>2)"
    if "x \<in> set xs" for x
    using assms(2) that by (simp add: np_mean_Fin [OF assms(1)] fsub_def fsq_Fin)
  then have e: "map (\<lambda>x. fsq (fsub x (np_mean (map Fin xs)))) (map Fin xs) = map Fin ?sq"
    by simp
  from assms(1) have "?sq \<noteq> []" by simp
  then have "np_mean (map Fin ?sq) = Fin (spec_mean ?sq)" by (rule np_mean_Fin)
  then have m: "np_mean (map Fin ?sq) = Fin (sum_list ?sq / real (length xs))"
    by (simp add: spec_mean_def)
  have "0 \<le> sum_list ?sq / real (length xs)"
    by (intro divide_nonneg_nonneg sum_list_nonneg) auto
  then have "fsqrt (Fin (sum_list ?sq / real (length xs)))
      = Fin (sqrt (sum_list ?sq / real (length xs)))"
    by simp
  then show ?thesis
    unfolding np_std_def e m spec_population_std_def .
qed

text \<open>
  Claim C3, as the code has it. For every non-empty filtered table in which no object has
  a zero denominator in the quotient below (no object at \<open>z = z_cluster = -1\<close>), with
  redshifts and a speed of light of magnitude at most \<open>1e149\<close>, so that every square is
  within the float range: with \<open>z_cluster\<close> the mean of the redshifts, the velocity offset
  of each object is
  \<open>c * ((1 + z)\<^sup>2 - (1 + z_cluster)\<^sup>2) / ((1 + z)\<^sup>2 + (1 + z_cluster)\<^sup>2)\<close>, and the
  characteristic dispersion is the population standard deviation (divisor \<open>n\<close>) of these
  values.
\<close>

theorem velocity_offsets_and_dispersion:
  assumes "t \<noteq> []"
    and "\<forall>r \<in> set t. (1 + specz r)\<^sup>2 + (1 + spec_mean (map specz t))\<^sup>2 \<noteq> 0"
    and "\<forall>r \<in> set t. \<bar>specz r\<bar> \<le> 10 ^ 149"
    and "\<bar>c\<bar> \<le> 10 ^ 149"
  shows "cluster_redshift t = Fin (spec_mean (map specz t)) \<and>
    v_dispersion c t =
      map (\<lambda>r. Fin (spec_velocity_offset c (specz r) (spec_mean (map specz t)))) t \<and>
    disp c t = Fin (spec_population_std
      (map (\<lambda>r. spec_velocity_offset c (specz r) (spec_mean (map specz t))) t))"
proof -
  let ?zc = "spec_mean (map specz t)"
  let ?v = "\<lambda>r. spec_velocity_offset c (specz r) ?zc"
  from assms(1) have zc: "cluster_redshift t = Fin ?zc"
    by (simp add: cluster_redshift_def pd_mean_spec)
  have "\<bar>?zc\<bar> \<le> 10 ^ 149"
    using assms(1,3) by (intro spec_mean_bound) auto
  then have bc: "\<bar>1 + ?zc\<bar> \<le> 10 ^ 150" by simp
  have "v_offset c (specz r) (Fin ?zc) = Fin (?v r)" if "r \<in> set t" for r
  proof -
    from assms(2) that have d: "(1 + specz r)\<^sup>2 + (1 + ?zc)\<^sup>2 \<noteq> 0" by blast
    from assms(3) that have "\<bar>specz r\<bar> \<le> 10 ^ 149" by blast
    then have "\<bar>1 + specz r\<bar> \<le> 10 ^ 150" by simp
    with d show ?thesis using bc by (rule v_offset_spec)
  qed
  then have v: "v_dispersion c t = map (\<lambda>r. Fin (?v r)) t"
    unfolding v_dispersion_def zc by (intro map_cong refl)
  have v': "v_dispersion c t = map Fin (map ?v t)" by (simp add: v)
  from assms(1) have ne: "map ?v t \<noteq> []" by simp
  have vb: "\<forall>x \<in> set (map ?v t). \<bar>x\<bar> \<le> \<bar>c\<bar>"
    using assms(2) by (auto intro: spec_velocity_offset_bound)
  from spec_mean_bound [OF ne vb] have mb: "\<bar>spec_mean (map ?v t)\<bar> \<le> \<bar>c\<bar>" .
  have "\<bar>x - spec_mean (map ?v t)\<bar> \<le> 10 ^ 150" if "x \<in> set (map ?v t)" for x
  proof -
    from vb that have "\<bar>x\<bar> \<le> \<bar>c\<bar>" by blast
    with mb have "\<bar>x - spec_mean (map ?v t)\<bar> \<le> 2 * \<bar>c\<bar>" by linarith
    with assms(4) show ?thesis by simp
  qed
  then have "\<forall>x \<in> set (map ?v t). \<bar>x - spec_mean (map ?v t)\<bar> \<le> 10 ^ 150" by blast
  with ne have "np_std (map Fin (map ?v t)) = Fin (spec_population_std (map ?v t))"
    by (rule np_std_Fin)
  then have "disp c t = Fin (spec_population_std (map ?v t))"
    unfolding disp_def v' .
  with zc v show ?thesis by simp
qed

lemma table3_mean: "spec_mean (map specz table3) = 2"
  by (simp add: table3_def obj_def spec_mean_def)

text \<open>
  Redshifts 1, 2 and 3 with \<open>c = 13\<close>: the offsets are \<open>-5\<close>, 0 and \<open>91/25\<close>.
\<close>

theorem velocity_offsets_and_dispersion_witness:
  "table3 \<noteq> [] \<and>
   (1 + specz (obj 1 1))\<^sup>2 + (1 + spec_mean (map specz table3))\<^sup>2 \<noteq> 0 \<and>
   \<bar>specz (obj 3 3)\<bar> \<le> 10 ^ 149 \<and> \<bar>13 :: real\<bar> \<le> 10 ^ 149 \<and>
   cluster_redshift table3 = Fin 2 \<and>
   v_dispersion 13 table3 = [Fin (- 5), Fin 0, Fin (91 / 25)] \<and>
   disp 13 table3 = Fin (spec_population_std [- 5, 0, 91 / 25])"
proof -
  have ne: "table3 \<noteq> []" by (simp add: table3_def)
  have m: "\<forall>r \<in> set table3. (1 + specz r)\<^sup>2 + (1 + spec_mean (map specz table3))\<^sup>2 \<noteq> 0"
    by (simp add: table3_mean) (simp add: table3_def obj_def)
  have b: "\<forall>r \<in> set table3. \<bar>specz r\<bar> \<le> 10 ^ 149" by (simp add: table3_def obj_def)
  have c: "\<bar>13 :: real\<bar> \<le> 10 ^ 149" by simp
  from velocity_offsets_and_dispersion [OF ne m b c] ne
  show ?thesis
    by (simp add: table3_mean) (simp add: table3_def obj_def spec_velocity_offset_def)
qed

text \<open>
  Claim C3 as stated fails. A catalog of one object leaves an empty filtered table, whose
  cluster redshift and dispersion are NaN and no standard deviation of anything. Two
  objects at redshift \<open>-1\<close> pass the filter, and their offsets and the dispersion are NaN.
\<close>

theorem offsets_undefined_counterexample:
  "filter_cell [obj 1 (1/2)] = Inr [] \<and>
   cluster_redshift [] = NaN \<and> disp 299792.458 [] = NaN \<and>
   filter_cell [obj 1 (- 1), obj 2 (- 1)] = Inr [obj 1 (- 1), obj 2 (- 1)] \<and>
   v_dispersion 299792.458 [obj 1 (- 1), obj 2 (- 1)] = [NaN, NaN] \<and>
   disp 299792.458 [obj 1 (- 1), obj 2 (- 1)] = NaN"
  by (simp add: std_redshift_def mean_redshift_def pd_std_def pd_mean_def lower_limit_def
      upper_limit_def fsub_def fge_def filter_cell_def filtered_df_def removed_percent_def obj_def
      cluster_redshift_def v_dispersion_def v_offset_def fsq_def disp_def np_std_def np_mean_def
      np_sum_def)

text \<open>
  Claim C6, as the code has it. For every object of the filtered table whose redshift
  \<open>z\<close> equals the cluster redshift, is not \<open>-1\<close> and has \<open>1 + z\<close> of magnitude at most
  \<open>1e150\<close> (its square is within the float range), the velocity offset is 0.
\<close>

theorem offset_zero_at_cluster_redshift:
  assumes "r \<in> set t" and "cluster_redshift t = Fin (specz r)" and "specz r \<noteq> - 1"
    and "\<bar>1 + specz r\<bar> \<le> 10 ^ 150"
  shows "v_offset c (specz r) (cluster_redshift t) = Fin 0"
  using assms(2,3,4) by (simp add: v_offset_same)

text \<open>
  The object at redshift 2 of the table of redshifts 1, 2 and 3.
\<close>

theorem offset_zero_at_cluster_redshift_witness:
  "obj 2 2 \<in> set table3 \<and> cluster_redshift table3 = Fin (specz (obj 2 2)) \<and>
   specz (obj 2 2) \<noteq> - 1 \<and> \<bar>1 + specz (obj 2 2)\<bar> \<le> 10 ^ 150 \<and>
   v_offset 299792.458 (specz (obj 2 2)) (cluster_redshift table3) = Fin 0"
proof -
  have a: "obj 2 2 \<in> set table3" by (simp add: table3_def)
  have b: "cluster_redshift table3 = Fin (specz (obj 2 2))"
    by (simp add: cluster_redshift_def pd_mean_def table3_def obj_def)
  have c: "specz (obj 2 2) \<noteq> - 1" by (simp add: obj_def)
  have d: "\<bar>1 + specz (obj 2 2)\<bar> \<le> 10 ^ 150" by (simp add: obj_def)
  from offset_zero_at_cluster_redshift [OF a b c d] a b c d show ?thesis by simp
qed

text \<open>
  Claim C6 as stated fails. Two objects at redshift \<open>-1\<close> pass the filter, the cluster
  redshift is theirs, and both offsets are \<open>0/0\<close>, NaN. Two objects at redshift \<open>1e200\<close>
  pass the filter, the cluster redshift is theirs, both squares overflow to infinity, and
  both offsets are NaN.
\<close>

theorem offset_nan_counterexample:
  "filter_cell [obj 1 (- 1), obj 2 (- 1)] = Inr [obj 1 (- 1), obj 2 (- 1)] \<and>
   cluster_redshift [obj 1 (- 1), obj 2 (- 1)] = Fin (specz (obj 1 (- 1))) \<and>
   v_dispersion 299792.458 [obj 1 (- 1), obj 2 (- 1)] = [NaN, NaN] \<and>
   filter_cell [obj 1 (10 ^ 200), obj 2 (10 ^ 200)] = Inr [obj 1 (10 ^ 200), obj 2 (10 ^ 200)] \<and>
   cluster_redshift [obj 1 (10 ^ 200), obj 2 (10 ^ 200)] = Fin (specz (obj 1 (10 ^ 200))) \<and>
   v_dispersion 299792.458 [obj 1 (10 ^ 200), obj 2 (10 ^ 200)] = [NaN, NaN]"
  by (simp add: std_redshift_def mean_redshift_def pd_std_def pd_mean_def lower_limit_def
      upper_limit_def fsub_def fge_def filter_cell_def filtered_df_def removed_percent_def obj_def
      cluster_redshift_def v_dispersion_def v_offset_def fsq_def max_float_def)

section \<open>The columns of the filtered table\<close>

lemma map_of_assign_other:
  "n \<noteq> name \<Longrightarrow> map_of (assign name vals cols) n = map_of cols n"
  by (induction cols) auto

lemma map_of_assign_same: "map_of (assign name vals cols) name = Some vals"
  by (induction cols) auto

lemma filtered_df_subset: "set (filtered_df a) \<subseteq> set a"
  by (simp add: filtered_df_def)

text \<open>
  Claim C9. The two cells that write to the filtered table leave its rows as they are and
  touch no column but the one they assign. After both, the rows are those the filter
  retained, each a row of the aggregated table with its redshift, position and
  separation, and the assigned columns are \<open>velocity\<close> and \<open>v_dispersion\<close>, in this order.
  The geometry and mass cells only read the table.
\<close>

theorem kinematics_only_appends_columns:
  "rows (velocity_cell c f) = rows f \<and>
   rows (dispersion_cell c f) = rows f \<and>
   (n \<noteq> ''velocity'' \<longrightarrow>
      map_of (derived (velocity_cell c f)) n = map_of (derived f) n) \<and>
   (n \<noteq> ''v_dispersion'' \<longrightarrow>
      map_of (derived (dispersion_cell c f)) n = map_of (derived f) n) \<and>
   rows (kinematics c (filtered_df a)) = filtered_df a \<and>
   set (rows (kinematics c (filtered_df a))) \<subseteq> set a \<and>
   derived (kinematics c (filtered_df a)) =
     [(''velocity'', map (\<lambda>r. Fin (c * specz r)) (filtered_df a)),
      (''v_dispersion'', v_dispersion c (filtered_df a))]"
proof -
  have r: "rows (kinematics c (filtered_df a)) = filtered_df a"
    by (simp add: kinematics_def dispersion_cell_def velocity_cell_def new_frame_def)
  have d: "derived (kinematics c (filtered_df a)) =
     [(''velocity'', map (\<lambda>r. Fin (c * specz r)) (filtered_df a)),
      (''v_dispersion'', v_dispersion c (filtered_df a))]"
    by (simp add: kinematics_def dispersion_cell_def velocity_cell_def new_frame_def)
  show ?thesis
    by (simp add: r d filtered_df_subset)
       (simp add: velocity_cell_def dispersion_cell_def map_of_assign_other)
qed

text \<open>A frame that already has a column \<open>note\<close> keeps it through both cells.\<close>

theorem kinematics_only_appends_columns_witness:
  "''note'' \<noteq> ''velocity'' \<and> ''note'' \<noteq> ''v_dispersion'' \<and>
   map_of (derived (velocity_cell 13 \<lparr>rows = table3, derived = [(''note'', [NaN, NaN, NaN])]\<rparr>))
     ''note'' = Some [NaN, NaN, NaN] \<and>
   map_of (derived (dispersion_cell 13 \<lparr>rows = table3, derived = [(''note'', [NaN, NaN, NaN])]\<rparr>))
     ''note'' = Some [NaN, NaN, NaN] \<and>
   rows (velocity_cell 13 \<lparr>rows = table3, derived = [(''note'', [NaN, NaN, NaN])]\<rparr>) = table3 \<and>
   rows (kinematics 13 (filtered_df table3)) = table3"
proof -
  have f: "filtered_df table3 = table3"
  proof -
    have "2 \<le> length table3" by (simp add: table3_def)
    from filtered_df_spec [OF this] show ?thesis
      by (simp add: table3_def obj_def spec_mean_def spec_sample_std_def)
  qed
  from kinematics_only_appends_columns
    [of 13 "\<lparr>rows = table3, derived = [(''note'', [NaN, NaN, NaN])]\<rparr>" "''note''" table3]
  show ?thesis by (simp add: f)
qed

section \<open>Distances and diameter\<close>

lemma pd_max_Max:
  assumes "xs \<noteq> []"
  shows "pd_max xs = Fin (Max (set xs))"
proof (cases xs)
  case Nil
  with assms show ?thesis by simp
next
  case (Cons a list)
  then show ?thesis using Max.set_eq_fold [of a list] by simp
qed

lemma r_comoving_Fin:
  "H_0 \<noteq> 0 \<Longrightarrow>
   r_comoving c H_0 (Fin z) = Fin ((c * z / H_0) * (1 - (z / 2) * (1 + q0)))"
  by (simp add: r_comoving_def fsub_def)

lemma D_A_Fin:
  "H_0 \<noteq> 0 \<Longrightarrow> z \<noteq> - 1 \<Longrightarrow>
   D_A c H_0 (Fin z) = Fin ((c * z / H_0) * (1 - (z / 2) * (1 + q0)) / (1 + z))"
  by (simp add: D_A_def r_comoving_Fin add_eq_0_iff)

text \<open>
  Claim C4, as the code has it. For every non-empty filtered table whose cluster redshift
  \<open>z\<close> is not \<open>-1\<close>, with a Hubble constant that is not 0 and redshifts and separations
  of magnitude at most \<open>1e100\<close>, the comoving distance is
  \<open>r = (c * z / H_0) * (1 - (z / 2) * (1 + q0))\<close>, the angular-diameter distance is
  \<open>r / (1 + z)\<close>, and the diameter is twice that distance times the largest projected
  separation of the table converted from arcminutes to radians.
\<close>

theorem geometry_distances_and_diameter:
  assumes "t \<noteq> []" and "H_0 \<noteq> 0" and "spec_mean (map specz t) \<noteq> - 1"
    and "\<forall>r \<in> set t. \<bar>specz r\<bar> \<le> 10 ^ 100 \<and> \<bar>proj_sep r\<bar> \<le> 10 ^ 100"
  shows "r_comoving c H_0 (cluster_redshift t)
      = Fin ((c * spec_mean (map specz t) / H_0)
             * (1 - (spec_mean (map specz t) / 2) * (1 + q0))) \<and>
    D_A c H_0 (cluster_redshift t)
      = Fin ((c * spec_mean (map specz t) / H_0)
             * (1 - (spec_mean (map specz t) / 2) * (1 + q0))
             / (1 + spec_mean (map specz t))) \<and>
    max_sep_radians t = Fin (Max (set (map proj_sep t)) * (pi / 180) / 60) \<and>
    diameter c H_0 t
      = Fin (2 * ((c * spec_mean (map specz t) / H_0)
                  * (1 - (spec_mean (map specz t) / 2) * (1 + q0))
                  / (1 + spec_mean (map specz t)))
               * (Max (set (map proj_sep t)) * (pi / 180) / 60))"
proof -
  from assms(1) have zc: "cluster_redshift t = Fin (spec_mean (map specz t))"
    by (simp add: cluster_redshift_def pd_mean_spec)
  from assms(1) have "map proj_sep t \<noteq> []" by simp
  then have "pd_max (map proj_sep t) = Fin (Max (set (map proj_sep t)))"
    by (rule pd_max_Max)
  then have rad: "max_sep_radians t = Fin (Max (set (map proj_sep t)) * (pi / 180) / 60)"
    by (simp add: max_sep_radians_def max_sep_arcmin_def)
  note r = r_comoving_Fin [OF assms(2)]
  note d = D_A_Fin [OF assms(2,3)]
  show ?thesis
    by (simp only: zc r d rad diameter_def fmul.simps simp_thms)
qed

text \<open>
  With \<open>c = 140\<close> and \<open>H_0 = 70\<close> at redshift 1: \<open>r = 2 * 0.767\<close>, the distance is
  0.767, and the largest separation, 60 arcminutes, is \<open>pi / 180\<close>.
\<close>

theorem geometry_distances_and_diameter_witness:
  "sky3 \<noteq> [] \<and> (70::real) \<noteq> 0 \<and> spec_mean (map specz sky3) \<noteq> - 1 \<and>
   \<bar>specz (hd sky3)\<bar> \<le> 10 ^ 100 \<and> \<bar>proj_sep (hd sky3)\<bar> \<le> 10 ^ 100 \<and>
   r_comoving 140 70 (cluster_redshift sky3) = Fin (767 / 500) \<and>
   D_A 140 70 (cluster_redshift sky3) = Fin (767 / 1000) \<and>
   max_sep_radians sky3 = Fin (pi / 180) \<and>
   diameter 140 70 sky3 = Fin (767 / 500 * (pi / 180))"
proof -
  have ne: "sky3 \<noteq> []" by (simp add: sky3_def)
  have h: "(70::real) \<noteq> 0" by simp
  have m: "spec_mean (map specz sky3) = 1" by (simp add: sky3_def spec_mean_def)
  then have m': "spec_mean (map specz sky3) \<noteq> - 1" by simp
  have b: "\<forall>r \<in> set sky3. \<bar>specz r\<bar> \<le> 10 ^ 100 \<and> \<bar>proj_sep r\<bar> \<le> 10 ^ 100"
    by (simp add: sky3_def)
  have b0: "\<bar>specz (hd sky3)\<bar> \<le> 10 ^ 100 \<and> \<bar>proj_sep (hd sky3)\<bar> \<le> 10 ^ 100"
    by (simp add: sky3_def)
  have mx: "Max (proj_sep ` set sky3) = 60" by (simp add: sky3_def)
  from geometry_distances_and_diameter [OF ne h m' b, of 140] ne m' b0
  show ?thesis by (simp add: m mx q0_def)
qed

text \<open>
  Claim C4 as stated fails. On the empty filtered table that a catalog of one object
  leaves, the distances, the largest separation and the diameter are NaN. On two objects
  at redshift \<open>-1\<close>, which pass the filter, the angular-diameter distance is the negative
  infinity and the diameter is NaN.
\<close>

theorem geometry_undefined_counterexample:
  "filter_cell [obj 1 (1/2)] = Inr [] \<and>
   r_comoving 299792.458 67.66 (cluster_redshift []) = NaN \<and>
   D_A 299792.458 67.66 (cluster_redshift []) = NaN \<and>
   max_sep_arcmin [] = NaN \<and>
   diameter 299792.458 67.66 [] = NaN \<and>
   filter_cell [obj 1 (- 1), obj 2 (- 1)] = Inr [obj 1 (- 1), obj 2 (- 1)] \<and>
   D_A 299792.458 67.66 (cluster_redshift [obj 1 (- 1), obj 2 (- 1)]) = NInf \<and>
   diameter 299792.458 67.66 [obj 1 (- 1), obj 2 (- 1)] = NaN"
  by (simp add: std_redshift_def mean_redshift_def pd_std_def pd_mean_def lower_limit_def
      upper_limit_def fsub_def fge_def filter_cell_def filtered_df_def removed_percent_def obj_def
      cluster_redshift_def r_comoving_def D_A_def diameter_def max_sep_radians_def
      max_sep_arcmin_def q0_def)

section \<open>The virial mass\<close>

lemma G_SI_pos: "0 < G_SI" by (simp add: G_SI_def)
lemma M_sun_pos: "0 < M_sun" by (simp add: M_sun_def)

lemma M_dyn_Fin:
  "M_dyn (Fin s) (Fin d) = Fin (3 * (s * 1000)\<^sup>2 * (d * 0.5 * (3.086 * 10 ^ 22)) / G_SI)"
  using G_SI_pos by (simp add: M_dyn_def sigma_ms_def R_meters_def power2_eq_square)

text \<open>
  Claim C5. For a dispersion \<open>s\<close> (km/s) and a diameter \<open>d\<close> (Mpc) the dynamical mass is
  \<open>3 * sigma\<^sup>2 * R / G\<close> with \<open>sigma = 1000 * s\<close> m/s, \<open>R = d / 2\<close> in metres
  (\<open>3.086e22\<close> m to the Mpc) and \<open>G = 6.674e-11\<close>; the reported value is that mass
  divided by \<open>1.989e30\<close> kg. For \<open>s = 1000\<close> and \<open>d = 2\<close> it is
  \<open>3 * 10\<^sup>1\<^sup>2 * 3.086e22 / 6.674e-11 / 1.989e30 = 1543e18 / 2212431\<close>, about
  \<open>6.974e14\<close> solar masses.
\<close>

theorem virial_mass_in_solar_masses:
  "M_dyn (Fin s) (Fin d)
     = Fin (3 * (s * 1000)\<^sup>2 * (d / 2 * (3.086 * 10 ^ 22)) / (6.674 / 10 ^ 11)) \<and>
   M_dyn_solar (Fin s) (Fin d)
     = Fin (3 * (s * 1000)\<^sup>2 * (d / 2 * (3.086 * 10 ^ 22)) / (6.674 / 10 ^ 11)
            / (1.989 * 10 ^ 30)) \<and>
   M_dyn_solar (Fin 1000) (Fin 2) = Fin (1543 * 10 ^ 18 / 2212431)"
proof -
  have a: "M_dyn (Fin s) (Fin d)
     = Fin (3 * (s * 1000)\<^sup>2 * (d / 2 * (3.086 * 10 ^ 22)) / (6.674 / 10 ^ 11))"
    by (simp add: M_dyn_Fin G_SI_def)
  have b: "M_dyn_solar (Fin s) (Fin d)
     = Fin (3 * (s * 1000)\<^sup>2 * (d / 2 * (3.086 * 10 ^ 22)) / (6.674 / 10 ^ 11)
            / (1.989 * 10 ^ 30))"
    by (simp add: M_dyn_solar_def M_dyn_Fin G_SI_def M_sun_def)
  have c: "M_dyn_solar (Fin 1000) (Fin 2) = Fin (1543 * 10 ^ 18 / 2212431)"
    by (simp add: M_dyn_solar_def M_dyn_Fin G_SI_def M_sun_def)
  from a b c show ?thesis by blast
qed

lemma fmul2_sigma: "sigma_ms (fmul (Fin 2) s) = fmul (Fin 2) (sigma_ms s)"
  by (cases s) (simp_all add: sigma_ms_def)

lemma square_double: "fmul (fmul (Fin 2) x) (fmul (Fin 2) x) = fmul (Fin 4) (fmul x x)"
  by (cases x) simp_all

lemma fmul3_4: "fmul (Fin 3) (fmul (Fin 4) x) = fmul (Fin 4) (fmul (Fin 3) x)"
  by (cases x) simp_all

lemma fmul_4_left: "fmul (fmul (Fin 4) x) y = fmul (Fin 4) (fmul x y)"
  by (cases x; cases y) (auto simp: zero_less_mult_iff mult_less_0_iff)

lemma fmul_2_right: "fmul x (fmul (Fin 2) y) = fmul (Fin 2) (fmul x y)"
  by (cases x; cases y) (auto simp: zero_less_mult_iff mult_less_0_iff)

lemma fmul_2_left: "fmul (fmul (Fin 2) x) y = fmul (Fin 2) (fmul x y)"
  by (cases x; cases y) (auto simp: zero_less_mult_iff mult_less_0_iff)

lemma fdiv_scale: "0 < k \<Longrightarrow> 0 < g \<Longrightarrow> fdiv (fmul (Fin k) x) (Fin g) = fmul (Fin k) (fdiv x (Fin g))"
  by (cases x) (auto simp: zero_less_mult_iff mult_less_0_iff zero_less_divide_iff)

lemma R_meters_double: "R_meters (fmul (Fin 2) d) = fmul (Fin 2) (R_meters d)"
  by (simp add: R_meters_def fmul_2_left)

text \<open>
  Claim C7. Doubling the dispersion at a fixed diameter multiplies the mass by 4, and
  doubling the diameter (hence the radius) at a fixed dispersion multiplies it by 2, in
  kilograms and in solar masses, for every float value of the two inputs.
\<close>

theorem mass_scaling:
  "M_dyn (fmul (Fin 2) s) d = fmul (Fin 4) (M_dyn s d) \<and>
   M_dyn s (fmul (Fin 2) d) = fmul (Fin 2) (M_dyn s d) \<and>
   M_dyn_solar (fmul (Fin 2) s) d = fmul (Fin 4) (M_dyn_solar s d) \<and>
   M_dyn_solar s (fmul (Fin 2) d) = fmul (Fin 2) (M_dyn_solar s d) \<and>
   M_dyn (Fin (2 * a)) (Fin b) = Fin (4 * (3 * (a * 1000)\<^sup>2 * (b / 2 * (3.086 * 10 ^ 22)) / G_SI)) \<and>
   M_dyn (Fin a) (Fin (2 * b)) = Fin (2 * (3 * (a * 1000)\<^sup>2 * (b / 2 * (3.086 * 10 ^ 22)) / G_SI))"
proof -
  have a: "M_dyn (fmul (Fin 2) s) d = fmul (Fin 4) (M_dyn s d)"
    using G_SI_pos
    by (simp add: M_dyn_def fmul2_sigma square_double fmul3_4 fmul_4_left fdiv_scale)
  have b: "M_dyn s (fmul (Fin 2) d) = fmul (Fin 2) (M_dyn s d)"
    using G_SI_pos
    by (simp add: M_dyn_def R_meters_double fmul_2_right fdiv_scale)
  have c: "M_dyn_solar (fmul (Fin 2) s) d = fmul (Fin 4) (M_dyn_solar s d)"
    using M_sun_pos by (simp add: M_dyn_solar_def a fdiv_scale)
  have d: "M_dyn_solar s (fmul (Fin 2) d) = fmul (Fin 2) (M_dyn_solar s d)"
    using M_sun_pos by (simp add: M_dyn_solar_def b fdiv_scale)
  have e: "M_dyn (Fin (2 * a)) (Fin b) = Fin (4 * (3 * (a * 1000)\<^sup>2 * (b / 2 * (3.086 * 10 ^ 22)) / G_SI))"
    by (simp add: M_dyn_Fin power2_eq_square)
  have f: "M_dyn (Fin a) (Fin (2 * b)) = Fin (2 * (3 * (a * 1000)\<^sup>2 * (b / 2 * (3.086 * 10 ^ 22)) / G_SI))"
    by (simp add: M_dyn_Fin power2_eq_square)
  from a b c d e f show ?thesis by blast
qed

end
